theory Spec2Isabelle
  imports Complex_Main "HOL-Library.Word"
begin

section \<open>The fractal explorer: data model\<close>

text \<open>
  The component \<^verbatim>\<open>FractalGenerator\<close> of \<^verbatim>\<open>src/FractalGenerator.tsx\<close> keeps a viewport
  (centre and zoom), an iteration budget and the state of a drag gesture, renders the
  Mandelbrot set into an RGBA buffer and reacts to wheel and mouse events.

  Numbers. A TypeScript \<^verbatim>\<open>number\<close> is modelled by a \<open>real\<close>: the arithmetic of the
  model is exact, it has no rounding, no infinities and no NaN. The canvas dimensions
  \<^verbatim>\<open>width\<close> and \<^verbatim>\<open>height\<close> are pixel counts and are modelled by \<open>nat\<close>; the loop
  counters \<^verbatim>\<open>px\<close>, \<^verbatim>\<open>py\<close> and \<^verbatim>\<open>iteration\<close> start at 0 and are incremented by 1, so
  they are \<open>nat\<close> as well. An element of the \<^verbatim>\<open>Uint8ClampedArray\<close> behind
  \<^verbatim>\<open>ImageData.data\<close> is an \<open>8 word\<close>. Division by zero is \<open>0\<close> in HOL and
  \<^verbatim>\<open>Infinity\<close> or \<^verbatim>\<open>NaN\<close> in JavaScript: the theorems below that depend on a
  quotient assume its divisor is not zero.
\<close>

type_synonym vec2 = "real \<times> real"

text \<open>
  A Konva stage, as far as the handlers use it: \<^verbatim>\<open>stage.getPointerPosition()\<close> is a position
  or \<^verbatim>\<open>null\<close>. An event gives its stage, or \<^verbatim>\<open>null\<close>, through \<^verbatim>\<open>e.target.getStage()\<close>;
  a wheel event carries \<^verbatim>\<open>e.evt.deltaY\<close> in addition.
\<close>

datatype stage = Stage (getPointerPosition: "vec2 option")

record event =
  getStage :: "stage option"

record wheelEvent = event +
  deltaY :: real

text \<open>
  The props (\<open>width\<close>, \<open>height\<close>) and the state of the component. The handlers read the
  state of the latest render and their updates are applied before the next event is
  handled, so that an event maps a component to a component.
\<close>

record component =
  width :: nat
  height :: nat
  maxIterations :: real
  centerX :: real
  centerY :: real
  zoom :: real
  isPanning :: bool
  lastMousePosition :: "vec2 option"

definition initialState :: "nat \<Rightarrow> nat \<Rightarrow> component" where
  "initialState w h =
     \<lparr>width = w, height = h, maxIterations = 100, centerX = -0.6, centerY = 0,
      zoom = 1, isPanning = False, lastMousePosition = None\<rparr>"

section \<open>Colour mapping\<close>

text \<open>\<^verbatim>\<open>Math.round\<close> rounds to the nearest integer, a half towards plus infinity.\<close>

definition mathRound :: "real \<Rightarrow> int" where
  "mathRound v = \<lfloor>v + 1 / 2\<rfloor>"

definition hue2rgb :: "real \<Rightarrow> real \<Rightarrow> real \<Rightarrow> real" where
  "hue2rgb p q t0 =
     (let t1 = (if t0 < 0 then t0 + 1 else t0);
          t = (if t1 > 1 then t1 - 1 else t1)
      in if t < 1 / 6 then p + (q - p) * 6 * t
         else if t < 1 / 2 then q
         else if t < 2 / 3 then p + (q - p) * (2 / 3 - t) * 6
         else p)"

definition hslToRgb :: "real \<Rightarrow> real \<Rightarrow> real \<Rightarrow> int \<times> int \<times> int" where
  "hslToRgb h s l =
     (let (r, g, b) =
        (if s = 0 then (l, l, l)
         else
           (let q = (if l < 0.5 then l * (1 + s) else l + s - l * s);
                p = 2 * l - q
            in (hue2rgb p q (h + 1 / 3), hue2rgb p q h, hue2rgb p q (h - 1 / 3))))
      in (mathRound (r * 255), mathRound (g * 255), mathRound (b * 255)))"

section \<open>Rendering\<close>

text \<open>
  The pixel-to-plane mapping of \<^verbatim>\<open>generateFractal\<close> (\<^verbatim>\<open>scale\<close>, \<^verbatim>\<open>offsetX\<close>, \<^verbatim>\<open>offsetY\<close>,
  \<^verbatim>\<open>x\<close>, \<^verbatim>\<open>y\<close>), at a pixel position that need not be integral.
\<close>

definition complexPoint :: "nat \<Rightarrow> nat \<Rightarrow> real \<Rightarrow> real \<Rightarrow> real \<Rightarrow> vec2 \<Rightarrow> vec2" where
  "complexPoint w h currentCenterX currentCenterY currentZoom p =
     (let scale = 4 / (real w * currentZoom);
          offsetX = currentCenterX - (real w / 2) * scale;
          offsetY = currentCenterY - (real h / 2) * scale
      in (fst p * scale + offsetX, snd p * scale + offsetY))"

text \<open>
  The escape loop: \<^verbatim>\<open>while (zx * zx + zy * zy <= 4 && iteration < currentMaxIterations)\<close>.
  The budget is a \<^verbatim>\<open>number\<close> and the loop stops once the counter is no longer below it.
\<close>

function escapeLoop :: "real \<Rightarrow> real \<Rightarrow> real \<Rightarrow> real \<Rightarrow> real \<Rightarrow> nat \<Rightarrow> nat" where
  "escapeLoop x y currentMaxIterations zx zy iteration =
     (if zx * zx + zy * zy \<le> 4 \<and> real iteration < currentMaxIterations
      then (let xtemp = zx * zx - zy * zy + x
            in escapeLoop x y currentMaxIterations xtemp (2 * zx * zy + y) (Suc iteration))
      else iteration)"
  by pat_completeness auto
termination
proof (relation "measure (\<lambda>(x, y, m, zx, zy, i). nat \<lceil>m - real i\<rceil>)")
  show "wf (measure (\<lambda>(x, y, m, zx, zy, i). nat \<lceil>m - real i\<rceil>))"
    by simp
next
  fix x y m zx zy :: real and iteration :: nat and xtemp :: real
  assume "zx * zx + zy * zy \<le> 4 \<and> real iteration < m"
  then have "0 < m - real iteration"
    by simp
  then have "\<lceil>m - real (Suc iteration)\<rceil> < \<lceil>m - real iteration\<rceil>" and "0 < \<lceil>m - real iteration\<rceil>"
    by linarith+
  then show "((x, y, m, xtemp, 2 * zx * zy + y, Suc iteration), (x, y, m, zx, zy, iteration))
      \<in> measure (\<lambda>(x, y, m, zx, zy, i). nat \<lceil>m - real i\<rceil>)"
    by simp
qed

definition escapeTime :: "real \<Rightarrow> real \<Rightarrow> real \<Rightarrow> nat" where
  "escapeTime x y currentMaxIterations = escapeLoop x y currentMaxIterations 0 0 0"

definition pixelColor :: "real \<Rightarrow> nat \<Rightarrow> int \<times> int \<times> int" where
  "pixelColor currentMaxIterations iteration =
     (if real iteration = currentMaxIterations then (0, 0, 0)
      else hslToRgb (real iteration / currentMaxIterations) 1 0.5)"

text \<open>
  A store into a \<^verbatim>\<open>Uint8ClampedArray\<close> clamps the value to \<open>0..255\<close>; the values stored
  here are integers. A store beyond the end of the array is ignored, as \<open>xs[i := v]\<close> is.
\<close>

definition toUint8Clamped :: "int \<Rightarrow> 8 word" where
  "toUint8Clamped v = word_of_int (max 0 (min 255 v))"

definition writePixel :: "8 word list \<Rightarrow> nat \<Rightarrow> int \<times> int \<times> int \<Rightarrow> 8 word list" where
  "writePixel data pixelIndex color =
     (case color of (c0, c1, c2) \<Rightarrow>
        data[pixelIndex := toUint8Clamped c0,
             pixelIndex + 1 := toUint8Clamped c1,
             pixelIndex + 2 := toUint8Clamped c2,
             pixelIndex + 3 := 255])"

definition renderPixel ::
  "nat \<Rightarrow> nat \<Rightarrow> real \<Rightarrow> real \<Rightarrow> real \<Rightarrow> real \<Rightarrow> 8 word list \<Rightarrow> nat \<Rightarrow> nat \<Rightarrow> 8 word list" where
  "renderPixel w h currentCenterX currentCenterY currentZoom currentMaxIterations data px py =
     (let (x, y) = complexPoint w h currentCenterX currentCenterY currentZoom (real px, real py);
          iteration = escapeTime x y currentMaxIterations;
          pixelIndex = (py * w + px) * 4;
          color = pixelColor currentMaxIterations iteration
      in writePixel data pixelIndex color)"

text \<open>
  \<^verbatim>\<open>generateFractal\<close> returns without a buffer when the canvas gives no 2D context, and
  \<^verbatim>\<open>createImageData\<close> raises \<^verbatim>\<open>IndexSizeError\<close> when a dimension is zero. Otherwise the
  buffer of \<open>4 * width * height\<close> zero bytes is filled column by column.
\<close>

datatype renderResult = NoContext | IndexSizeError | ImageData "8 word list"

definition generateFractal ::
  "bool \<Rightarrow> nat \<Rightarrow> nat \<Rightarrow> real \<Rightarrow> real \<Rightarrow> real \<Rightarrow> real \<Rightarrow> renderResult" where
  "generateFractal ctx w h currentCenterX currentCenterY currentZoom currentMaxIterations =
     (if \<not> ctx then NoContext
      else if w = 0 \<or> h = 0 then IndexSizeError
      else ImageData
        (foldl (\<lambda>data px.
           foldl (\<lambda>data py.
             renderPixel w h currentCenterX currentCenterY currentZoom currentMaxIterations
               data px py) data [0..<h])
         (replicate (4 * w * h) 0) [0..<w]))"

section \<open>The controller\<close>

text \<open>
  The effect that renders after every change of the viewport or of the budget, and the
  \<^verbatim>\<open>onChange\<close> handler of the numeric input, whose argument is the number that
  \<^verbatim>\<open>Number(e.target.value)\<close> yields.
\<close>

definition renderEffect :: "bool \<Rightarrow> component \<Rightarrow> renderResult" where
  "renderEffect ctx c =
     generateFractal ctx (width c) (height c) (centerX c) (centerY c) (zoom c) (maxIterations c)"

definition onChangeMaxIterations :: "component \<Rightarrow> real \<Rightarrow> component" where
  "onChangeMaxIterations c v = c\<lparr>maxIterations := v\<rparr>"

definition scaleBy :: real where
  "scaleBy = 1.1"

definition handleZoom :: "component \<Rightarrow> wheelEvent \<Rightarrow> component" where
  "handleZoom c e =
     (case getStage e of
        None \<Rightarrow> c
      | Some stage \<Rightarrow>
          (let oldScale = zoom c
           in case getPointerPosition stage of
                None \<Rightarrow> c
              | Some pointerPosition \<Rightarrow>
                  (let mousePointTo = (fst pointerPosition / real (width c),
                                       snd pointerPosition / real (height c));
                       newScale0 = (if deltaY e > 0 then oldScale / scaleBy
                                    else oldScale * scaleBy);
                       newScale = max 0.00001 (min 1000000 newScale0);
                       newCenterX = centerX c + (fst mousePointTo - 0.5)
                         * (4 / (real (width c) * oldScale)) * (oldScale - newScale);
                       newCenterY = centerY c + (snd mousePointTo - 0.5)
                         * (4 / (real (height c) * oldScale)) * (oldScale - newScale)
                   in c\<lparr>centerX := newCenterX, centerY := newCenterY, zoom := newScale\<rparr>)))"

definition handleMouseDown :: "component \<Rightarrow> event \<Rightarrow> component" where
  "handleMouseDown c e =
     (let c1 = c\<lparr>isPanning := True\<rparr>
      in case getStage e of
           None \<Rightarrow> c1
         | Some stage \<Rightarrow>
             (case getPointerPosition stage of
                None \<Rightarrow> c1
              | Some pos \<Rightarrow> c1\<lparr>lastMousePosition := Some pos\<rparr>))"

definition handleMouseMove :: "component \<Rightarrow> event \<Rightarrow> component" where
  "handleMouseMove c e =
     (if \<not> isPanning c then c
      else case lastMousePosition c of
        None \<Rightarrow> c
      | Some lastPos \<Rightarrow>
          (case getStage e of
             None \<Rightarrow> c
           | Some stage \<Rightarrow>
               (case getPointerPosition stage of
                  None \<Rightarrow> c
                | Some pointerPosition \<Rightarrow>
                    (let scale = 4 / (real (width c) * zoom c);
                         dx = (fst pointerPosition - fst lastPos) * scale;
                         dy = (snd pointerPosition - snd lastPos) * scale;
                         sensitivity = 0.5
                     in c\<lparr>centerX := centerX c - dx * sensitivity,
                          centerY := centerY c - dy * sensitivity,
                          lastMousePosition := Some pointerPosition\<rparr>))))"

definition handleMouseUp :: "component \<Rightarrow> component" where
  "handleMouseUp c = c\<lparr>isPanning := False, lastMousePosition := None\<rparr>"

text \<open>A pointer event at a position: the stage exists and reports that position.\<close>

definition pointerAt :: "vec2 \<Rightarrow> event" where
  "pointerAt p = \<lparr>getStage = Some (Stage (Some p))\<rparr>"

definition wheelAt :: "vec2 \<Rightarrow> real \<Rightarrow> wheelEvent" where
  "wheelAt p d = \<lparr>getStage = Some (Stage (Some p)), deltaY = d\<rparr>"

section \<open>Notions the statements use\<close>

text \<open>
  The iteration count that the renderer computes for the pixel \<open>(px, py)\<close>, the four bytes
  that a pixel of a given colour occupies in the buffer, and the point of the plane that
  the renderer shows at a pixel position under the viewport of a component.
\<close>

definition iterationAt ::
  "nat \<Rightarrow> nat \<Rightarrow> real \<Rightarrow> real \<Rightarrow> real \<Rightarrow> real \<Rightarrow> nat \<Rightarrow> nat \<Rightarrow> nat" where
  "iterationAt w h currentCenterX currentCenterY currentZoom currentMaxIterations px py =
     (case complexPoint w h currentCenterX currentCenterY currentZoom (real px, real py) of
        (x, y) \<Rightarrow> escapeTime x y currentMaxIterations)"

definition channels :: "int \<times> int \<times> int \<Rightarrow> 8 word list" where
  "channels color =
     (case color of (c0, c1, c2) \<Rightarrow>
        [toUint8Clamped c0, toUint8Clamped c1, toUint8Clamped c2, 255])"

definition viewPoint :: "component \<Rightarrow> vec2 \<Rightarrow> vec2" where
  "viewPoint c p = complexPoint (width c) (height c) (centerX c) (centerY c) (zoom c) p"

text \<open>
  The recentring formula as the specification words it (section 4.5): one \<open>oldScale\<close>,
  derived from the width, for both axes. It is compared with \<open>handleZoom\<close> below.
\<close>

definition specZoomCenter :: "nat \<Rightarrow> nat \<Rightarrow> vec2 \<Rightarrow> real \<Rightarrow> real \<Rightarrow> vec2 \<Rightarrow> vec2" where
  "specZoomCenter w h oldCenter oldZoom newZoom p =
     (let mousePointTo = (fst p / real w, snd p / real h);
          oldScale = 4.0 / (real w * oldZoom)
      in (fst oldCenter + (fst mousePointTo - 0.5) * oldScale * (oldZoom - newZoom),
          snd oldCenter + (snd mousePointTo - 0.5) * oldScale * (oldZoom - newZoom)))"

section \<open>Zoom gestures\<close>

subsection \<open>Where the pixel under the pointer goes\<close>

lemma handleZoom_zoom_pos: "0 < zoom c \<Longrightarrow> 0 < zoom (handleZoom c e)"
  by (auto simp: handleZoom_def Let_def max_def min_def split: option.splits)

lemma complexPoint_fst:
  "fst (complexPoint w h cx cy z p) = cx + (fst p - real w / 2) * (4 / (real w * z))"
proof -
  have "a * s + (cx - b * s) = cx + (a - b) * s" for a b s :: real
    by (simp add: algebra_simps)
  then show ?thesis
    by (simp only: complexPoint_def Let_def fst_conv)
qed

lemma shift_algebra:
  fixes d w z z' :: real
  assumes "0 < w" "0 < z" "0 < z'"
  shows "d / w * (4 / (w * z)) * (z - z') + d * (4 / (w * z')) = d * (4 / (w * z))
     \<longleftrightarrow> d = 0 \<or> z' = z"
proof -
  have "d / w * (4 / (w * z)) * (z - z') + d * (4 / (w * z')) - d * (4 / (w * z))
      = 4 * d * (z - z') * (z' + w) / (w * w * z * z')"
    using assms by (simp add: field_simps)
  moreover have "4 * d * (z - z') * (z' + w) / (w * w * z * z') = 0 \<longleftrightarrow> d = 0 \<or> z' = z"
    using assms by auto
  ultimately show ?thesis
    by (metis eq_iff_diff_eq_0)
qed

text \<open>
  In exact arithmetic a wheel event keeps the real part of the point under the pointer
  only when the pointer is on the vertical centre line of the canvas or the clamp has left
  the zoom as it was.
\<close>

lemma zoom_fixes_x_iff:
  assumes "0 < width c" and "0 < zoom c" and "getStage e = Some (Stage (Some p))"
  shows "fst (viewPoint (handleZoom c e) p) = fst (viewPoint c p)
     \<longleftrightarrow> fst p = real (width c) / 2 \<or> zoom (handleZoom c e) = zoom c"
proof -
  let ?w = "real (width c)" and ?z = "zoom c" and ?z' = "zoom (handleZoom c e)"
  let ?d = "fst p - ?w / 2"
  have w: "0 < ?w"
    using assms(1) by simp
  have z': "0 < ?z'"
    using assms(2) by (rule handleZoom_zoom_pos)
  have cx: "centerX (handleZoom c e)
      = centerX c + (fst p / ?w - 0.5) * (4 / (?w * ?z)) * (?z - ?z')"
    using assms(3) by (simp add: handleZoom_def Let_def)
  have wh: "width (handleZoom c e) = width c"
    by (simp add: handleZoom_def Let_def split: option.splits)
  have old: "fst (viewPoint c p) = centerX c + ?d * (4 / (?w * ?z))"
    by (simp only: viewPoint_def complexPoint_fst)
  have new: "fst (viewPoint (handleZoom c e) p)
      = centerX c + (?d / ?w * (4 / (?w * ?z)) * (?z - ?z') + ?d * (4 / (?w * ?z')))"
  proof -
    have "fst (viewPoint (handleZoom c e) p)
        = centerX (handleZoom c e) + ?d * (4 / (?w * ?z'))"
      by (simp only: viewPoint_def complexPoint_fst wh)
    moreover have "fst p / ?w - 0.5 = ?d / ?w"
      using w by (simp add: field_simps)
    ultimately show ?thesis
      by (simp only: cx add.assoc)
  qed
  have "fst (viewPoint (handleZoom c e) p) = fst (viewPoint c p)
      \<longleftrightarrow> ?d / ?w * (4 / (?w * ?z)) * (?z - ?z') + ?d * (4 / (?w * ?z')) = ?d * (4 / (?w * ?z))"
    unfolding old new by simp
  also have "\<dots> \<longleftrightarrow> ?d = 0 \<or> ?z' = ?z"
    using w assms(2) z' by (rule shift_algebra)
  finally show ?thesis
    by simp
qed

subsection \<open>The claims on the zoom handler\<close>

text \<open>
  Claim C1 (the point under the pointer stays fixed by a zoom-in gesture, up to a relative
  tolerance of \<open>10\<^sup>-\<^sup>9\<close>) fails on the code. On the 800 by 600 canvas in the initial
  viewport, the pointer at \<open>(600, 300)\<close> is over the point \<open>0.4 + 0i\<close>; after one zoom-in
  wheel event at that position the same pixel shows \<open>27189 / 88000\<close>, about \<open>0.309\<close>.
  The gap of about \<open>0.091\<close> is exact arithmetic, many orders above any rounding.
\<close>

theorem zoom_toward_cursor_fails:
  "viewPoint (initialState 800 600) (600, 300) = (2 / 5, 0)
   \<and> viewPoint (handleZoom (initialState 800 600) (wheelAt (600, 300) (- 100))) (600, 300)
       = (27189 / 88000, 0)
   \<and> \<bar>2 / 5 - 27189 / 88000\<bar> > (1 / 10 ^ 9) * max \<bar>2 / 5\<bar> \<bar>27189 / 88000 :: real\<bar>"
  by (simp add: viewPoint_def complexPoint_def handleZoom_def wheelAt_def initialState_def
      scaleBy_def Let_def)

text \<open>
  The handler against the recentring formula of the specification. On the horizontal axis
  the two agree. On the vertical axis the handler scales by \<open>4 / (height * oldZoom)\<close>,
  where the formula, like the renderer and the pan handler, scales by
  \<open>4 / (width * oldZoom)\<close>; the two results agree exactly when the canvas is square, the
  pointer is on the horizontal centre line, or the clamp has left the zoom as it was.
\<close>

lemma handleZoom_centerX_spec:
  assumes "getStage e = Some st" and "getPointerPosition st = Some p"
  shows "centerX (handleZoom c e)
      = fst (specZoomCenter (width c) (height c) (centerX c, centerY c) (zoom c)
               (zoom (handleZoom c e)) p)"
  using assms by (simp add: handleZoom_def specZoomCenter_def Let_def)

lemma handleZoom_centerY:
  assumes "getStage e = Some st" and "getPointerPosition st = Some p"
  shows "centerY (handleZoom c e) = centerY c + (snd p / real (height c) - 0.5)
            * (4 / (real (height c) * zoom c)) * (zoom c - zoom (handleZoom c e))"
  using assms by (simp add: handleZoom_def Let_def)

lemma scale_algebra:
  fixes a w h z d :: real
  assumes "0 < w" and "0 < h" and "0 < z"
  shows "a * (4 / (h * z)) * d = a * (4 / (w * z)) * d \<longleftrightarrow> h = w \<or> a = 0 \<or> d = 0"
proof -
  have "a * (4 / (h * z)) * d - a * (4 / (w * z)) * d = 4 * a * d * (w - h) / (w * h * z)"
    using assms by (simp add: field_simps)
  moreover have "4 * a * d * (w - h) / (w * h * z) = 0 \<longleftrightarrow> h = w \<or> a = 0 \<or> d = 0"
    using assms by auto
  ultimately show ?thesis
    by (metis eq_iff_diff_eq_0)
qed

lemma handleZoom_centerY_spec_iff:
  assumes "getStage e = Some st" and "getPointerPosition st = Some p"
    and "0 < width c" and "0 < height c" and "0 < zoom c"
  shows "centerY (handleZoom c e)
       = snd (specZoomCenter (width c) (height c) (centerX c, centerY c) (zoom c)
               (zoom (handleZoom c e)) p)
     \<longleftrightarrow> height c = width c \<or> snd p = real (height c) / 2
         \<or> zoom (handleZoom c e) = zoom c"
proof -
  let ?a = "snd p / real (height c) - 0.5" and ?d = "zoom c - zoom (handleZoom c e)"
  have spec: "snd (specZoomCenter (width c) (height c) (centerX c, centerY c) (zoom c)
               (zoom (handleZoom c e)) p)
      = centerY c + ?a * (4 / (real (width c) * zoom c)) * ?d"
    by (simp add: specZoomCenter_def Let_def)
  have "centerY (handleZoom c e)
       = snd (specZoomCenter (width c) (height c) (centerX c, centerY c) (zoom c)
               (zoom (handleZoom c e)) p)
     \<longleftrightarrow> ?a * (4 / (real (height c) * zoom c)) * ?d
         = ?a * (4 / (real (width c) * zoom c)) * ?d"
    unfolding spec handleZoom_centerY [OF assms(1,2)] by simp
  also have "\<dots> \<longleftrightarrow> real (height c) = real (width c) \<or> ?a = 0 \<or> ?d = 0"
    using assms(3,4,5) by (intro scale_algebra) simp_all
  also have "\<dots> \<longleftrightarrow> height c = width c \<or> snd p = real (height c) / 2
         \<or> zoom (handleZoom c e) = zoom c"
    using assms(4) by (auto simp: field_simps)
  finally show ?thesis .
qed

text \<open>
  Claim C2 (both new centre coordinates follow the specification's formula, with
  \<open>oldScale = 4 / (width * oldZoom)\<close> on both axes) fails on the code for the vertical axis.
  On the 800 by 600 canvas in the initial viewport, one zoom-in wheel event with the pointer
  at \<open>(400, 0)\<close> sets the zoom to \<open>1.1\<close>; the formula gives the new centre
  \<open>(-0.6, 1 / 4000)\<close>, and the handler stores \<open>centerX = -0.6\<close> and
  \<open>centerY = 1 / 3000\<close>.
\<close>

theorem zoom_center_y_diverges:
  "zoom (handleZoom (initialState 800 600) (wheelAt (400, 0) (- 100))) = 1.1
   \<and> specZoomCenter 800 600 (- 0.6, 0) 1 1.1 (400, 0) = (- 0.6, 1 / 4000)
   \<and> centerX (handleZoom (initialState 800 600) (wheelAt (400, 0) (- 100))) = - 0.6
   \<and> centerY (handleZoom (initialState 800 600) (wheelAt (400, 0) (- 100))) = 1 / 3000
   \<and> centerY (handleZoom (initialState 800 600) (wheelAt (400, 0) (- 100)))
       \<noteq> snd (specZoomCenter 800 600 (- 0.6, 0) 1 1.1 (400, 0))"
  by (simp add: specZoomCenter_def handleZoom_def wheelAt_def initialState_def
      scaleBy_def Let_def)

subsection \<open>The zoom stays clamped\<close>

lemma handleZoom_zoom_range:
  assumes "1 / 100000 \<le> zoom c" and "zoom c \<le> 1000000"
  shows "1 / 100000 \<le> zoom (handleZoom c e) \<and> zoom (handleZoom c e) \<le> 1000000"
  using assms by (auto simp: handleZoom_def Let_def max_def min_def split: option.splits)

lemma foldl_handleZoom_range:
  "1 / 100000 \<le> zoom c \<Longrightarrow> zoom c \<le> 1000000 \<Longrightarrow>
   1 / 100000 \<le> zoom (foldl handleZoom c es) \<and> zoom (foldl handleZoom c es) \<le> 1000000"
proof (induction es arbitrary: c)
  case Nil
  then show ?case by simp
next
  case (Cons e es)
  have "1 / 100000 \<le> zoom (handleZoom c e) \<and> zoom (handleZoom c e) \<le> 1000000"
    using Cons.prems by (rule handleZoom_zoom_range)
  then show ?case using Cons.IH [of "handleZoom c e"] by simp
qed

text \<open>
  Claim C3. From the initial state (zoom 1), after any finite sequence of wheel events,
  whatever their direction, pointer position or stage, the zoom lies between \<open>10\<^sup>-\<^sup>5\<close> and
  \<open>10\<^sup>6\<close>.
\<close>

theorem zoom_stays_clamped:
  "1 / 100000 \<le> zoom (foldl handleZoom (initialState w h) es)
   \<and> zoom (foldl handleZoom (initialState w h) es) \<le> 1000000"
  by (rule foldl_handleZoom_range) (simp_all add: initialState_def)

text \<open>
  Claim C10. A wheel event that reaches the recentring code divides the zoom by 1.1 when
  \<open>deltaY\<close> is strictly positive and multiplies it by 1.1 otherwise, before the clamp; so
  \<open>deltaY = 0\<close> zooms in.
\<close>

theorem wheel_direction:
  assumes "getStage e = Some st" and "getPointerPosition st = Some p"
  shows "(0 < deltaY e \<longrightarrow>
            zoom (handleZoom c e) = max (1 / 100000) (min 1000000 (zoom c / 1.1)))
    \<and> (deltaY e \<le> 0 \<longrightarrow>
            zoom (handleZoom c e) = max (1 / 100000) (min 1000000 (zoom c * 1.1)))"
  using assms by (simp add: handleZoom_def Let_def scaleBy_def)

theorem wheel_direction_witness:
  "zoom (handleZoom (initialState 800 600) (wheelAt (400, 300) 0)) = 1.1
   \<and> zoom (handleZoom (initialState 800 600) (wheelAt (400, 300) 3)) = 10 / 11"
  using wheel_direction [of "wheelAt (400, 300) 0" "Stage (Some (400, 300))" "(400, 300)"
      "initialState 800 600"]
    wheel_direction [of "wheelAt (400, 300) 3" "Stage (Some (400, 300))" "(400, 300)"
      "initialState 800 600"]
  by (simp add: wheelAt_def initialState_def)

section \<open>Pan gestures\<close>

lemma pan_cancel: "v - (a - b) * s * t - (b - a) * s * t = (v::real)"
  by (simp add: algebra_simps)

text \<open>
  Claim C4. On a canvas of positive width and with a positive zoom, a pointer-down at
  \<open>p0\<close>, a move to \<open>p1\<close> and a move back to \<open>p0\<close> leave \<open>centerX\<close> and \<open>centerY\<close> at their
  values before the pan. The arithmetic of the model is exact, so the values are equal; in
  between, the move to \<open>p1\<close> has shifted the centre by half the pointer's displacement
  times the scale.
\<close>

theorem pan_round_trip:
  assumes "0 < width c" and "0 < zoom c"
  shows "(let c1 = handleMouseDown c (pointerAt p0);
              c2 = handleMouseMove c1 (pointerAt p1);
              c3 = handleMouseMove c2 (pointerAt p0)
          in centerX c2 = centerX c - (fst p1 - fst p0) * (4 / (real (width c) * zoom c)) * 0.5
           \<and> centerY c2 = centerY c - (snd p1 - snd p0) * (4 / (real (width c) * zoom c)) * 0.5
           \<and> centerX c3 = centerX c \<and> centerY c3 = centerY c)"
proof -
  let ?s = "4 / (real (width c) * zoom c)"
  define c1 where "c1 = handleMouseDown c (pointerAt p0)"
  define c2 where "c2 = handleMouseMove c1 (pointerAt p1)"
  define c3 where "c3 = handleMouseMove c2 (pointerAt p0)"
  have c1: "c1 = c\<lparr>isPanning := True, lastMousePosition := Some p0\<rparr>"
    unfolding c1_def by (simp add: handleMouseDown_def pointerAt_def)
  have c2: "c2 = c1\<lparr>centerX := centerX c - (fst p1 - fst p0) * ?s * 0.5,
                       centerY := centerY c - (snd p1 - snd p0) * ?s * 0.5,
                       lastMousePosition := Some p1\<rparr>"
    unfolding c2_def c1 by (simp add: handleMouseMove_def pointerAt_def Let_def)
  have c3x: "centerX c3
      = centerX c - (fst p1 - fst p0) * ?s * 0.5 - (fst p0 - fst p1) * ?s * 0.5"
    unfolding c3_def c2 c1 by (simp add: handleMouseMove_def pointerAt_def Let_def)
  have c3y: "centerY c3
      = centerY c - (snd p1 - snd p0) * ?s * 0.5 - (snd p0 - snd p1) * ?s * 0.5"
    unfolding c3_def c2 c1 by (simp add: handleMouseMove_def pointerAt_def Let_def)
  have "centerX c3 = centerX c" and "centerY c3 = centerY c"
    unfolding c3x c3y pan_cancel by simp_all
  moreover have "centerX c2 = centerX c - (fst p1 - fst p0) * ?s * 0.5"
    and "centerY c2 = centerY c - (snd p1 - snd p0) * ?s * 0.5"
    unfolding c2 by simp_all
  ultimately show ?thesis
    unfolding Let_def c1_def [symmetric] c2_def [symmetric] c3_def [symmetric] by simp
qed

theorem pan_round_trip_witness:
  "centerX (handleMouseMove (handleMouseDown (initialState 800 600) (pointerAt (100, 200)))
       (pointerAt (300, 250))) = - 11 / 10
   \<and> centerX (handleMouseMove (handleMouseMove
       (handleMouseDown (initialState 800 600) (pointerAt (100, 200)))
       (pointerAt (300, 250))) (pointerAt (100, 200))) = - 6 / 10"
  using pan_round_trip [of "initialState 800 600" "(100, 200)" "(300, 250)"]
  by (simp add: initialState_def Let_def)

text \<open>
  Claim C9. A pointer-move event, whether it pans or is ignored, leaves the zoom, the
  iteration budget, the canvas width and height and the panning flag as they were. (Besides
  the centre, a panning move replaces the anchor \<open>lastMousePosition\<close>.)
\<close>

theorem handleMouseMove_frame:
  "zoom (handleMouseMove c e) = zoom c
   \<and> maxIterations (handleMouseMove c e) = maxIterations c
   \<and> width (handleMouseMove c e) = width c
   \<and> height (handleMouseMove c e) = height c
   \<and> isPanning (handleMouseMove c e) = isPanning c"
  by (simp add: handleMouseMove_def Let_def split: option.splits)

section \<open>The escape loop and the colours\<close>

lemma escapeLoop_origin_nat:
  "i \<le> n \<Longrightarrow> escapeLoop 0 0 (real n) 0 0 i = n"
proof (induction "n - i" arbitrary: i)
  case 0
  then show ?case by simp
next
  case (Suc k)
  then have "i < n" and "k = n - Suc i" and "Suc i \<le> n"
    by simp_all
  then show ?case using Suc.hyps(1) [of "Suc i"] by simp
qed

text \<open>
  For a budget that is not a whole number the loop at the origin stops at the first
  counter value that is not below the budget, its ceiling.
\<close>

lemma escapeLoop_origin:
  "escapeLoop 0 0 m 0 0 i = (if real i < m then nat \<lceil>m\<rceil> else i)"
proof (induction "nat \<lceil>m - real i\<rceil>" arbitrary: i)
  case 0
  then have "\<not> real i < m" by linarith
  then show ?case by simp
next
  case (Suc k)
  then have lt: "real i < m" by linarith
  have k: "k = nat \<lceil>m - real (Suc i)\<rceil>"
    using Suc.hyps(2) by simp linarith
  have "escapeLoop 0 0 m 0 0 (Suc i) = (if real (Suc i) < m then nat \<lceil>m\<rceil> else Suc i)"
    using Suc.hyps(1) [OF k] .
  moreover have "\<not> real (Suc i) < m \<Longrightarrow> nat \<lceil>m\<rceil> = Suc i"
    using lt by simp linarith
  ultimately show ?case using lt by (subst escapeLoop.simps) simp
qed

text \<open>
  Claim C6. For every whole iteration budget of at least 1, the escape-time evaluation
  at the point \<open>(0, 0)\<close> returns the budget: the origin never escapes.
\<close>

theorem origin_never_escapes:
  "1 \<le> n \<Longrightarrow> escapeTime 0 0 (real n) = n"
  using escapeLoop_origin_nat [of 0 n] by (simp add: escapeTime_def)

theorem origin_never_escapes_witness:
  "(1::nat) \<le> 100 \<and> escapeTime 0 0 (real (100::nat)) = 100"
  using origin_never_escapes [of 100] by simp

text \<open>
  Claim C7. The three spot checks of the HSL to RGB conversion: full-saturation red,
  green and blue at the hues \<open>0\<close>, \<open>1/3\<close> and \<open>2/3\<close>.
\<close>

theorem hsl_spot_checks:
  "hslToRgb 0 1 0.5 = (255, 0, 0)
   \<and> hslToRgb (1 / 3) 1 0.5 = (0, 255, 0)
   \<and> hslToRgb (2 / 3) 1 0.5 = (0, 0, 255)"
  by (simp add: hslToRgb_def hue2rgb_def mathRound_def Let_def)

section \<open>The iteration budget is not coerced\<close>

text \<open>
  The numeric input stores \<open>-1\<close> as it is, and the effect renders with it: on a canvas of
  one pixel the buffer is red, the colour of iteration count 0 under a budget that the
  count does not equal, where a budget of 1 gives black.
\<close>

theorem budget_not_coerced_counterexample:
  "maxIterations (onChangeMaxIterations (initialState 1 1) (- 1)) = - 1
   \<and> renderEffect True (onChangeMaxIterations (initialState 1 1) (- 1))
       = ImageData [255, 0, 0, 255]
   \<and> generateFractal True 1 1 (- 0.6) 0 1 1 = ImageData [0, 0, 0, 255]"
  by (simp add: onChangeMaxIterations_def initialState_def renderEffect_def generateFractal_def
      renderPixel_def complexPoint_def escapeTime_def pixelColor_def writePixel_def
      toUint8Clamped_def hslToRgb_def hue2rgb_def mathRound_def Let_def eval_nat_numeral)

text \<open>
  Claim C8, as amended. An externally supplied iteration budget is stored and handed to
  the renderer unchanged, whatever its sign; with a budget of 0 or less the escape loop
  is entered, its body never runs, and the iteration count is 0 at every point.
\<close>

theorem budget_passed_unchanged:
  "maxIterations (onChangeMaxIterations c v) = v
   \<and> renderEffect ctx (onChangeMaxIterations c v)
       = generateFractal ctx (width c) (height c) (centerX c) (centerY c) (zoom c) v
   \<and> (v \<le> 0 \<longrightarrow> escapeTime x y v = 0)"
  by (simp add: onChangeMaxIterations_def renderEffect_def escapeTime_def)

theorem budget_passed_unchanged_witness:
  "maxIterations (onChangeMaxIterations (initialState 800 600) (- 5)) = - 5
   \<and> escapeTime 0 0 (- 5) = 0"
  using budget_passed_unchanged [of "initialState 800 600" "- 5" True 0 0]
  by simp

section \<open>The rendered buffer\<close>

subsection \<open>One pixel\<close>

lemma length_writePixel [simp]: "length (writePixel d i c) = length d"
  by (simp add: writePixel_def split: prod.splits)

lemma writePixel_nth_inside:
  assumes "i + 3 < length d" and "k < 4"
  shows "writePixel d i c ! (i + k) = channels c ! k"
proof -
  consider "k = 0" | "k = 1" | "k = 2" | "k = 3"
    using assms(2) by linarith
  then show ?thesis
    using assms(1) by cases (simp_all add: writePixel_def channels_def split: prod.splits)
qed

lemma writePixel_nth_outside:
  "j < i \<or> i + 3 < j \<Longrightarrow> writePixel d i c ! j = d ! j"
  by (auto simp: writePixel_def split: prod.splits)

lemma renderPixel_writePixel:
  "renderPixel w h cx cy z m d px py
     = writePixel d ((py * w + px) * 4) (pixelColor m (iterationAt w h cx cy z m px py))"
  by (simp add: renderPixel_def iterationAt_def Let_def split: prod.splits)

subsection \<open>A sequence of pixel writes\<close>

text \<open>
  When the pixels of a list lie inside the buffer, at indices that are multiples of 4 and
  pairwise different, every pixel of the list holds its own colour after the writes: a
  later write does not reach the bytes of an earlier one.
\<close>

lemma foldl_writePixel:
  assumes "\<forall>p \<in> set ps. idx p + 3 < length d0"
    and "\<forall>p \<in> set ps. 4 dvd idx p"
    and "inj_on idx (set ps)"
    and "p \<in> set ps" and "k < 4"
  shows "foldl (\<lambda>d q. writePixel d (idx q) (col q)) d0 ps ! (idx p + k) = channels (col p) ! k"
  using assms
proof (induction ps rule: rev_induct)
  case Nil
  then show ?case by simp
next
  case (snoc q ps)
  let ?d = "foldl (\<lambda>d q. writePixel d (idx q) (col q)) d0 ps"
  have len: "length ?d = length d0"
    by (induction ps rule: rev_induct) simp_all
  show ?case
  proof (cases "p = q")
    case True
    have "idx q + 3 < length ?d"
      using snoc.prems(1) len by simp
    then show ?thesis
      using True snoc.prems(5) by (simp add: writePixel_nth_inside)
  next
    case False
    then have p: "p \<in> set ps"
      using snoc.prems(4) by simp
    have "idx p \<noteq> idx q"
      using False snoc.prems(3,4) by (auto simp: inj_on_def)
    moreover have "4 dvd idx p" "4 dvd idx q"
      using snoc.prems(2,4) by auto
    ultimately have "idx p + k < idx q \<or> idx q + 3 < idx p + k"
      using snoc.prems(5) by (auto simp: dvd_def)
    then have "writePixel ?d (idx q) (col q) ! (idx p + k) = ?d ! (idx p + k)"
      by (rule writePixel_nth_outside)
    moreover have "?d ! (idx p + k) = channels (col p) ! k"
      using snoc.IH snoc.prems p by (simp add: inj_on_def)
    ultimately show ?thesis by simp
  qed
qed

text \<open>The two nested loops visit the pairs of \<open>List.product\<close>, column by column.\<close>

lemma foldl_nested:
  "foldl (\<lambda>d x. foldl (\<lambda>d y. f d x y) d ys) d0 xs
     = foldl (\<lambda>d (x, y). f d x y) d0 (List.product xs ys)"
proof (induction xs arbitrary: d0)
  case Nil
  then show ?case by simp
next
  case (Cons x xs)
  have "foldl (\<lambda>d (x, y). f d x y) d (map (Pair x) ys) = foldl (\<lambda>d y. f d x y) d ys" for d
    by (induction ys arbitrary: d) simp_all
  then show ?case using Cons.IH by simp
qed

subsection \<open>Pixel indices\<close>

lemma pixelIndex_bound:
  fixes px py w h :: nat
  assumes "px < w" and "py < h"
  shows "(py * w + px) * 4 + 3 < 4 * w * h"
proof -
  have "py * w + px < Suc py * w"
    using assms(1) by simp
  also have "\<dots> \<le> h * w"
    using assms(2) by (intro mult_le_mono1) simp
  finally have lt: "py * w + px < w * h"
    by (simp add: mult.commute)
  have "a < b \<Longrightarrow> a * 4 + 3 < 4 * b" for a b :: nat
    by simp
  from this [OF lt] show ?thesis
    by (simp only: mult.assoc)
qed

lemma pixelIndex_eq:
  fixes px py px' py' w :: nat
  assumes "px < w" and "px' < w" and "py * w + px = py' * w + px'"
  shows "px = px' \<and> py = py'"
proof -
  have "(py * w + px) div w = (py' * w + px') div w"
    and "(py * w + px) mod w = (py' * w + px') mod w"
    using assms(3) by simp_all
  then show ?thesis
    using assms(1,2) by simp
qed

lemma pixelIndex_inj:
  "inj_on (\<lambda>(px, py). (py * w + px) * 4) (set (List.product [0..<w] [0..<h]))"
proof (rule inj_onI)
  fix p q :: "nat \<times> nat"
  assume p: "p \<in> set (List.product [0..<w] [0..<h])"
    and q: "q \<in> set (List.product [0..<w] [0..<h])"
    and e: "(case p of (px, py) \<Rightarrow> (py * w + px) * 4)
          = (case q of (px, py) \<Rightarrow> (py * w + px) * 4)"
  obtain px py px' py' where pq: "p = (px, py)" "q = (px', py')"
    by (cases p, cases q) blast
  have "px < w" "px' < w"
    using p q pq by simp_all
  moreover have "py * w + px = py' * w + px'"
    using e unfolding pq by simp
  ultimately have "px = px' \<and> py = py'"
    by (rule pixelIndex_eq)
  then show "p = q"
    using pq by simp
qed

subsection \<open>The whole buffer\<close>

lemma generateFractal_pixel:
  assumes "generateFractal ctx w h cx cy z m = ImageData data"
    and "px < w" and "py < h" and "k < 4"
  shows "data ! ((py * w + px) * 4 + k)
       = channels (pixelColor m (iterationAt w h cx cy z m px py)) ! k"
proof -
  let ?idx = "\<lambda>(px, py). (py * w + px) * 4"
  let ?col = "\<lambda>(px, py). pixelColor m (iterationAt w h cx cy z m px py)"
  let ?ps = "List.product [0..<w] [0..<h]"
  have data: "data = foldl (\<lambda>d q. writePixel d (?idx q) (?col q)) (replicate (4 * w * h) 0) ?ps"
  proof -
    have "(\<lambda>d (x, y). renderPixel w h cx cy z m d x y) = (\<lambda>d q. writePixel d (?idx q) (?col q))"
      by (auto simp: renderPixel_writePixel fun_eq_iff)
    then show ?thesis
      using assms(1) by (simp add: generateFractal_def foldl_nested split: if_splits)
  qed
  have 1: "\<forall>p \<in> set ?ps. ?idx p + 3 < length (replicate (4 * w * h) (0::8 word))"
    using pixelIndex_bound [of _ w _ h] by auto
  have 2: "\<forall>p \<in> set ?ps. 4 dvd ?idx p"
    by auto
  have 3: "(px, py) \<in> set ?ps"
    using assms(2,3) by simp
  show ?thesis
    unfolding data
    using foldl_writePixel [of ?ps ?idx "replicate (4 * w * h) 0" "(px, py)" k ?col,
        OF 1 2 pixelIndex_inj 3 assms(4)]
    by simp
qed

lemma generateFractal_length:
  assumes "generateFractal ctx w h cx cy z m = ImageData data"
  shows "length data = 4 * w * h"
proof -
  have inner: "length (foldl (\<lambda>d py. renderPixel w h cx cy z m d px py) d ys) = length d"
    for d px ys
    by (induction ys arbitrary: d) (simp_all add: renderPixel_writePixel)
  have "length (foldl (\<lambda>d px. foldl (\<lambda>d py. renderPixel w h cx cy z m d px py) d ys) d xs)
      = length d" for d xs ys
    by (induction xs arbitrary: d) (simp_all add: inner)
  then show ?thesis
    using assms by (auto simp: generateFractal_def split: if_splits)
qed

text \<open>
  Claim C5. In every buffer that \<open>generateFractal\<close> renders (under a positive zoom), which
  has \<open>4 * width * height\<close> bytes, the alpha byte of every pixel is 255, and every pixel
  whose iteration count equals the budget holds exactly the bytes \<open>(0, 0, 0, 255)\<close>.
\<close>

theorem boundary_color:
  assumes "generateFractal ctx w h cx cy z m = ImageData data" and "0 < z"
  shows "length data = 4 * w * h
    \<and> (\<forall>i < w * h. data ! (4 * i + 3) = 255)
    \<and> (\<forall>px < w. \<forall>py < h. real (iterationAt w h cx cy z m px py) = m \<longrightarrow>
          data ! ((py * w + px) * 4) = 0 \<and> data ! ((py * w + px) * 4 + 1) = 0
          \<and> data ! ((py * w + px) * 4 + 2) = 0 \<and> data ! ((py * w + px) * 4 + 3) = 255)"
proof (intro conjI allI impI)
  show "length data = 4 * w * h"
    using assms(1) by (rule generateFractal_length)
next
  fix i assume i: "i < w * h"
  then have w: "0 < w"
    by (cases w) simp_all
  have "i mod w < w"
    using w by simp
  moreover have "i div w < h"
    using i by (simp add: less_mult_imp_div_less mult.commute)
  ultimately have "data ! ((i div w * w + i mod w) * 4 + 3)
      = channels (pixelColor m (iterationAt w h cx cy z m (i mod w) (i div w))) ! 3"
    using generateFractal_pixel [OF assms(1), of "i mod w" "i div w" 3] by simp
  then show "data ! (4 * i + 3) = 255"
    by (simp add: channels_def mult.commute split: prod.splits)
next
  fix px py assume a: "px < w" "py < h" "real (iterationAt w h cx cy z m px py) = m"
  have c: "pixelColor m (iterationAt w h cx cy z m px py) = (0, 0, 0)"
    using a(3) by (simp add: pixelColor_def)
  have z: "toUint8Clamped 0 = 0"
    by (simp add: toUint8Clamped_def)
  show "data ! ((py * w + px) * 4) = 0"
    using generateFractal_pixel [OF assms(1) a(1,2), of 0] by (simp add: c channels_def z)
  show "data ! ((py * w + px) * 4 + 1) = 0"
    using generateFractal_pixel [OF assms(1) a(1,2), of 1] by (simp add: c channels_def z)
  show "data ! ((py * w + px) * 4 + 2) = 0"
    using generateFractal_pixel [OF assms(1) a(1,2), of 2] by (simp add: c channels_def z)
  show "data ! ((py * w + px) * 4 + 3) = 255"
    using generateFractal_pixel [OF assms(1) a(1,2), of 3] by (simp add: c channels_def z)
qed

theorem boundary_color_witness:
  "generateFractal True 1 1 2 2 1 3 = ImageData [0, 0, 0, 255]
   \<and> real (iterationAt 1 1 2 2 1 3 0 0) = 3
   \<and> length [0, 0, 0, 255 :: 8 word] = 4 * 1 * 1"
  using boundary_color [of True 1 1 2 2 1 3 "[0, 0, 0, 255]"]
  by (simp add: generateFractal_def renderPixel_def complexPoint_def escapeTime_def pixelColor_def
      writePixel_def toUint8Clamped_def iterationAt_def Let_def eval_nat_numeral)

end
